theory Spec2Isabelle
  imports Complex_Main
begin

section \<open>JavaScript values\<close>

text \<open>
  The values a field of a candidate instance can hold are the primitive values of
  JavaScript. A number is an IEEE double; of a double the program only ever asks whether
  it is NaN, whether it is zero, and how it compares with zero, so a finite double is
  represented by the rational it denotes, with the negative zero, the two infinities and
  NaN kept apart. (Every finite double is a rational, so a statement about every
  \<open>Finite r\<close> covers every finite double.) Nested objects as field values are not
  modelled.
\<close>

datatype jsnum = NaN | PosInfinity | NegInfinity | NegZero | Finite rat

datatype jsval =
    JUndefined
  | JNull
  | JBool bool
  | JNum jsnum
  | JBigInt int
  | JStr string
  | JSymbol string

datatype exn = TypeError string | Error string

text \<open>\<open>x > 0\<close> and \<open>x <= 0\<close> on numbers: every comparison with NaN is false.\<close>

fun num_gt_zero :: "jsnum \<Rightarrow> bool" where
  "num_gt_zero NaN = False"
| "num_gt_zero PosInfinity = True"
| "num_gt_zero NegInfinity = False"
| "num_gt_zero NegZero = False"
| "num_gt_zero (Finite r) = (0 < r)"

fun num_le_zero :: "jsnum \<Rightarrow> bool" where
  "num_le_zero NaN = False"
| "num_le_zero PosInfinity = False"
| "num_le_zero NegInfinity = True"
| "num_le_zero NegZero = True"
| "num_le_zero (Finite r) = (r \<le> 0)"

text \<open>\<open>!!v\<close>: the conversion of a value to a boolean.\<close>

fun to_boolean :: "jsval \<Rightarrow> bool" where
  "to_boolean JUndefined = False"
| "to_boolean JNull = False"
| "to_boolean (JBool b) = b"
| "to_boolean (JNum NaN) = False"
| "to_boolean (JNum PosInfinity) = True"
| "to_boolean (JNum NegInfinity) = True"
| "to_boolean (JNum NegZero) = False"
| "to_boolean (JNum (Finite r)) = (r \<noteq> 0)"
| "to_boolean (JBigInt i) = (i \<noteq> 0)"
| "to_boolean (JStr s) = (s \<noteq> [])"
| "to_boolean (JSymbol d) = True"

text \<open>
  \<open>v > 0\<close> on an arbitrary value. The right operand is a number, so the left one is
  converted to a numeric value: undefined to NaN, null to \<open>+0\<close>, a boolean to 0 or 1, a
  string by the host's string-to-number conversion, a bigint is compared by its
  mathematical value, and the conversion of a Symbol raises a TypeError. The conversion
  of strings (parsing and rounding to a double) belongs to the host language; it is the
  parameter \<open>str_num\<close> of everything that compares.
\<close>

fun greater_than_zero :: "(string \<Rightarrow> jsnum) \<Rightarrow> jsval \<Rightarrow> exn + bool" where
  "greater_than_zero str_num JUndefined = Inr False"
| "greater_than_zero str_num JNull = Inr False"
| "greater_than_zero str_num (JBool b) = Inr b"
| "greater_than_zero str_num (JNum n) = Inr (num_gt_zero n)"
| "greater_than_zero str_num (JBigInt i) = Inr (0 < i)"
| "greater_than_zero str_num (JStr s) = Inr (num_gt_zero (str_num s))"
| "greater_than_zero str_num (JSymbol d) =
     Inl (TypeError ''Cannot convert a Symbol value to a number'')"

fun is_symbol :: "jsval \<Rightarrow> bool" where
  "is_symbol (JSymbol d) = True"
| "is_symbol v = False"

text \<open>
  The numeric interpretation of a value, as the comparison operators take it: a number
  or a bigint is itself, undefined is NaN, null is \<open>+0\<close>, false and true are 0 and 1, a
  string is what the host's conversion reads in it, and a Symbol has none (the
  conversion raises).
\<close>

datatype numeric = Number jsnum | BigInt int

fun to_numeric :: "(string \<Rightarrow> jsnum) \<Rightarrow> jsval \<Rightarrow> exn + numeric" where
  "to_numeric str_num JUndefined = Inr (Number NaN)"
| "to_numeric str_num JNull = Inr (Number (Finite 0))"
| "to_numeric str_num (JBool b) = Inr (Number (Finite (if b then 1 else 0)))"
| "to_numeric str_num (JNum n) = Inr (Number n)"
| "to_numeric str_num (JBigInt i) = Inr (BigInt i)"
| "to_numeric str_num (JStr s) = Inr (Number (str_num s))"
| "to_numeric str_num (JSymbol d) =
     Inl (TypeError ''Cannot convert a Symbol value to a number'')"

fun numeric_gt_zero :: "numeric \<Rightarrow> bool" where
  "numeric_gt_zero (Number n) = num_gt_zero n"
| "numeric_gt_zero (BigInt i) = (0 < i)"

fun numeric_le_zero :: "numeric \<Rightarrow> bool" where
  "numeric_le_zero (Number n) = num_le_zero n"
| "numeric_le_zero (BigInt i) = (i \<le> 0)"

section \<open>Objects and the registry\<close>

text \<open>
  An object of a class is seen through \<open>obj.constructor.name\<close> and \<open>obj[prop]\<close>; a
  property that is not there reads as undefined. The same record stands for the
  \<open>target\<close> of a property decorator (the prototype of the decorated class), of which
  only \<open>target.constructor.name\<close> is read. Class and field names are ordinary
  identifiers. An object whose \<open>constructor\<close> property does not read a class is a
  \<open>candidate\<close> below.
\<close>

record jsobject =
  constructor_name :: string
  props :: "string \<Rightarrow> jsval"

text \<open>
  The inner objects of \<open>ValidatorConfig\<close> are enumerated by \<open>for ... in\<close>, so they keep
  their properties in insertion order; the outer object is only indexed.
\<close>

type_synonym PropValidators = "(string \<times> string list) list"

type_synonym ValidatorConfig = "string \<rightharpoonup> PropValidators"

definition registeredValidators :: ValidatorConfig where
  "registeredValidators = Map.empty"

text \<open>\<open>{...o}\<close>: spreading undefined contributes no property.\<close>

definition spread :: "PropValidators option \<Rightarrow> PropValidators" where
  "spread src = (case src of None \<Rightarrow> [] | Some cfg \<Rightarrow> cfg)"

text \<open>
  A computed property \<open>[propName]: v\<close> after a spread: a key that is already there keeps
  its place and takes the new value, a new key goes to the end.
\<close>

fun set_prop :: "string \<Rightarrow> string list \<Rightarrow> PropValidators \<Rightarrow> PropValidators" where
  "set_prop k v [] = [(k, v)]"
| "set_prop k v (p # ps) = (if fst p = k then (k, v) # ps else p # set_prop k v ps)"

definition Required :: "jsobject \<Rightarrow> string \<Rightarrow> ValidatorConfig \<Rightarrow> ValidatorConfig" where
  "Required target propName regs =
     regs(constructor_name target \<mapsto>
       set_prop propName [''Required''] (spread (regs (constructor_name target))))"

definition PositiveNumber :: "jsobject \<Rightarrow> string \<Rightarrow> ValidatorConfig \<Rightarrow> ValidatorConfig" where
  "PositiveNumber target propName regs =
     regs(constructor_name target \<mapsto>
       set_prop propName [''Positive''] (spread (regs (constructor_name target))))"

text \<open>\<open>registeredValidators[T]?.[f]\<close>: the rule list held for a field of a type.\<close>

definition rules_of :: "ValidatorConfig \<Rightarrow> string \<Rightarrow> string \<Rightarrow> string list option" where
  "rules_of regs T f = (case regs T of None \<Rightarrow> None | Some cfg \<Rightarrow> map_of cfg f)"

text \<open>A run of decorator applications, in the order in which they execute.\<close>

datatype decorator = RequiredDecorator | PositiveNumberDecorator

fun decorate :: "decorator \<times> jsobject \<times> string \<Rightarrow> ValidatorConfig \<Rightarrow> ValidatorConfig" where
  "decorate (RequiredDecorator, target, propName) regs = Required target propName regs"
| "decorate (PositiveNumberDecorator, target, propName) regs = PositiveNumber target propName regs"

fun rule_name :: "decorator \<Rightarrow> string" where
  "rule_name RequiredDecorator = ''Required''"
| "rule_name PositiveNumberDecorator = ''Positive''"

definition decorate_all ::
  "(decorator \<times> jsobject \<times> string) list \<Rightarrow> ValidatorConfig \<Rightarrow> ValidatorConfig" where
  "decorate_all ds regs = fold decorate ds regs"

definition registers :: "string \<Rightarrow> string \<Rightarrow> decorator \<times> jsobject \<times> string \<Rightarrow> bool" where
  "registers T f d = (constructor_name (fst (snd d)) = T \<and> snd (snd d) = f)"

section \<open>validate\<close>

text \<open>
  One pass of the \<open>switch\<close>. \<open>&&\<close> evaluates its right operand only when \<open>isValid\<close> is
  still true, so the comparison can raise only then. A validator name that is neither
  case falls through the \<open>switch\<close>.
\<close>

definition check_validator ::
  "(string \<Rightarrow> jsnum) \<Rightarrow> jsobject \<Rightarrow> string \<Rightarrow> string \<Rightarrow> bool \<Rightarrow> exn + bool" where
  "check_validator str_num obj prop validator isValid =
     (if validator = ''Required'' then
        Inr (isValid \<and> to_boolean (props obj prop))
      else if validator = ''Positive'' then
        (if isValid then greater_than_zero str_num (props obj prop) else Inr False)
      else Inr isValid)"

fun validators_loop ::
  "(string \<Rightarrow> jsnum) \<Rightarrow> jsobject \<Rightarrow> string \<Rightarrow> string list \<Rightarrow> bool \<Rightarrow> exn + bool" where
  "validators_loop str_num obj prop [] isValid = Inr isValid"
| "validators_loop str_num obj prop (validator # rest) isValid =
     (case check_validator str_num obj prop validator isValid of
        Inl e \<Rightarrow> Inl e
      | Inr b \<Rightarrow> validators_loop str_num obj prop rest b)"

text \<open>
  The outer loop runs over the keys of the configuration and reads
  \<open>objValidatorConfig[prop]\<close> for each; iterating over undefined would raise.
\<close>

fun props_loop ::
  "(string \<Rightarrow> jsnum) \<Rightarrow> jsobject \<Rightarrow> PropValidators \<Rightarrow> string list \<Rightarrow> bool \<Rightarrow> exn + bool" where
  "props_loop str_num obj cfg [] isValid = Inr isValid"
| "props_loop str_num obj cfg (prop # rest) isValid =
     (case map_of cfg prop of
        None \<Rightarrow> Inl (TypeError ''undefined is not iterable'')
      | Some validators \<Rightarrow>
          (case validators_loop str_num obj prop validators isValid of
             Inl e \<Rightarrow> Inl e
           | Inr b \<Rightarrow> props_loop str_num obj cfg rest b))"

definition validate :: "(string \<Rightarrow> jsnum) \<Rightarrow> ValidatorConfig \<Rightarrow> jsobject \<Rightarrow> exn + bool" where
  "validate str_num regs obj =
     (case regs (constructor_name obj) of
        None \<Rightarrow> Inr True
      | Some objValidatorConfig \<Rightarrow>
          props_loop str_num obj objValidatorConfig (map fst objValidatorConfig) True)"

text \<open>
  \<open>validate\<close> is declared with \<open>obj: any\<close>, and the first thing it evaluates is
  \<open>obj.constructor.name\<close>. On an object whose \<open>constructor\<close> property reads null or
  undefined (an instance after \<open>obj.constructor = null\<close>, an object without a
  prototype) reading \<open>name\<close> raises a TypeError. A candidate is an object as it is
  passed in: what \<open>obj.constructor\<close> reads (the name of a class or function, or
  nothing) and what \<open>obj[prop]\<close> reads. \<open>validate_any\<close> is the whole call;
  \<open>validate\<close> above is the call from the point where the name has been read.
\<close>

record candidate =
  constructor_read :: "string option"
  prop_read :: "string \<Rightarrow> jsval"

definition instance_of :: "string \<Rightarrow> candidate \<Rightarrow> jsobject" where
  "instance_of cls c = \<lparr>constructor_name = cls, props = prop_read c\<rparr>"

definition validate_any :: "(string \<Rightarrow> jsnum) \<Rightarrow> ValidatorConfig \<Rightarrow> candidate \<Rightarrow> exn + bool" where
  "validate_any str_num regs c =
     (case constructor_read c of
        None \<Rightarrow> Inl (TypeError ''Cannot read properties of null or undefined'')
      | Some cls \<Rightarrow> validate str_num regs (instance_of cls c))"

section \<open>Product\<close>

text \<open>
  The private field \<open>_price\<close> is \<open>price_field\<close> here. The setter either completes or
  throws; the object after the call is returned in both cases.
\<close>

record Product =
  title :: string
  price_field :: jsnum

definition set_price :: "jsnum \<Rightarrow> Product \<Rightarrow> (exn + unit) \<times> Product" where
  "set_price val this =
     (if num_gt_zero val then (Inr (), this\<lparr>price_field := val\<rparr>)
      else (Inl (Error ''Invalid price - must be positive''), this))"

section \<open>Course and the registry the module builds\<close>

text \<open>An object of a class, given by the properties its constructor assigns.\<close>

definition new_object :: "string \<Rightarrow> (string \<times> jsval) list \<Rightarrow> jsobject" where
  "new_object cls assigned =
     \<lparr>constructor_name = cls,
      props = (\<lambda>p. case map_of assigned p of None \<Rightarrow> JUndefined | Some v \<Rightarrow> v)\<rparr>"

definition Course_prototype :: jsobject where
  "Course_prototype = new_object ''Course'' []"

definition Course :: "string \<Rightarrow> jsnum \<Rightarrow> jsobject" where
  "Course t p = new_object ''Course'' [(''title'', JStr t), (''price'', JNum p)]"

text \<open>
  An object of a class as it is passed to \<open>validate\<close>, and the same object after
  \<open>obj.constructor = null\<close>.
\<close>

definition passed :: "jsobject \<Rightarrow> candidate" where
  "passed obj = \<lparr>constructor_read = Some (constructor_name obj), prop_read = props obj\<rparr>"

definition without_constructor :: "jsobject \<Rightarrow> candidate" where
  "without_constructor obj = \<lparr>constructor_read = None, prop_read = props obj\<rparr>"

text \<open>
  The decorators of \<open>Course\<close> run when the class is defined, \<open>@Required\<close> on \<open>title\<close>
  before \<open>@PositiveNumber\<close> on \<open>price\<close>.
\<close>

definition course_validators :: ValidatorConfig where
  "course_validators =
     PositiveNumber Course_prototype ''price''
       (Required Course_prototype ''title'' registeredValidators)"

text \<open>
  A string conversion for the closed examples: the empty string reads as \<open>+0\<close> and text
  that is no numeric literal as NaN, as in JavaScript. The examples hold no numeric
  literal in a string.
\<close>

definition text_to_number :: "string \<Rightarrow> jsnum" where
  "text_to_number s = (if s = [] then Finite 0 else NaN)"

section \<open>Notions used to state the properties\<close>

text \<open>A field of a type carries a rule when the rule is in the list held for it.\<close>

definition carries :: "ValidatorConfig \<Rightarrow> string \<Rightarrow> string \<Rightarrow> string \<Rightarrow> bool" where
  "carries regs T f rule =
     (case rules_of regs T f of None \<Rightarrow> False | Some validators \<Rightarrow> rule \<in> set validators)"

text \<open>A type has no rules when it has no entry, or only fields with empty rule lists.\<close>

definition no_rules :: "ValidatorConfig \<Rightarrow> string \<Rightarrow> bool" where
  "no_rules regs T =
     (case regs T of None \<Rightarrow> True | Some cfg \<Rightarrow> list_all (\<lambda>(f, validators). validators = []) cfg)"

text \<open>
  No field that carries the Positive rule holds a Symbol: the condition under which no
  comparison of \<open>validate\<close> can raise.
\<close>

definition no_symbol_under_positive :: "PropValidators \<Rightarrow> jsobject \<Rightarrow> bool" where
  "no_symbol_under_positive cfg obj =
     list_all (\<lambda>(f, validators). ''Positive'' \<in> set validators \<longrightarrow> \<not> is_symbol (props obj f)) cfg"

definition comparable :: "ValidatorConfig \<Rightarrow> jsobject \<Rightarrow> bool" where
  "comparable regs obj =
     (case regs (constructor_name obj) of
        None \<Rightarrow> True
      | Some cfg \<Rightarrow> no_symbol_under_positive cfg obj)"

text \<open>The predicate of one rule on a value, and the conjunction \<open>validate\<close> computes.\<close>

definition rule_holds :: "(string \<Rightarrow> jsnum) \<Rightarrow> jsval \<Rightarrow> string \<Rightarrow> bool" where
  "rule_holds str_num v validator =
     (if validator = ''Required'' then to_boolean v
      else if validator = ''Positive'' then greater_than_zero str_num v = Inr True
      else True)"

definition prop_holds :: "(string \<Rightarrow> jsnum) \<Rightarrow> jsobject \<Rightarrow> PropValidators \<Rightarrow> string \<Rightarrow> bool" where
  "prop_holds str_num obj cfg prop =
     (case map_of cfg prop of
        None \<Rightarrow> False
      | Some validators \<Rightarrow> list_all (rule_holds str_num (props obj prop)) validators)"

definition passes :: "(string \<Rightarrow> jsnum) \<Rightarrow> ValidatorConfig \<Rightarrow> jsobject \<Rightarrow> bool" where
  "passes str_num regs obj =
     (case regs (constructor_name obj) of
        None \<Rightarrow> True
      | Some cfg \<Rightarrow> list_all (prop_holds str_num obj cfg) (map fst cfg))"

text \<open>
  The values the specification lists as failing Required: the empty string, zero (of
  either sign, as a number or a bigint), null, undefined and false.
\<close>

fun spec_listed_absent :: "jsval \<Rightarrow> bool" where
  "spec_listed_absent (JStr s) = (s = [])"
| "spec_listed_absent (JNum (Finite r)) = (r = 0)"
| "spec_listed_absent (JNum NegZero) = True"
| "spec_listed_absent (JNum n) = False"
| "spec_listed_absent (JBigInt i) = (i = 0)"
| "spec_listed_absent JNull = True"
| "spec_listed_absent JUndefined = True"
| "spec_listed_absent (JBool b) = (\<not> b)"
| "spec_listed_absent (JSymbol d) = False"

section \<open>Registration\<close>

lemma map_of_set_prop: "map_of (set_prop k v ps) = (map_of ps)(k \<mapsto> v)"
  by (induction ps) auto

lemma rules_of_Required:
  "rules_of (Required target p regs) T f =
     (if constructor_name target = T \<and> p = f then Some [''Required''] else rules_of regs T f)"
  by (auto simp: rules_of_def Required_def map_of_set_prop spread_def split: option.splits)

lemma rules_of_PositiveNumber:
  "rules_of (PositiveNumber target p regs) T f =
     (if constructor_name target = T \<and> p = f then Some [''Positive''] else rules_of regs T f)"
  by (auto simp: rules_of_def PositiveNumber_def map_of_set_prop spread_def split: option.splits)

lemma rules_of_decorate:
  "rules_of (decorate d regs) T f =
     (if registers T f d then Some [rule_name (fst d)] else rules_of regs T f)"
proof -
  obtain k target p where d: "d = (k, target, p)"
    by (cases d) auto
  show ?thesis
    by (cases k) (simp_all add: d registers_def rules_of_Required rules_of_PositiveNumber)
qed

lemma decorate_all_snoc: "decorate_all (ds @ [d]) regs = decorate d (decorate_all ds regs)"
  by (simp add: decorate_all_def)

lemma rules_of_decorate_all:
  "filter (registers T f) ds \<noteq> [] \<Longrightarrow>
   rules_of (decorate_all ds regs) T f = Some [rule_name (fst (last (filter (registers T f) ds)))]"
proof (induction ds rule: rev_induct)
  case Nil
  then show ?case by simp
next
  case (snoc d ds)
  show ?case
  proof (cases "registers T f d")
    case True
    then show ?thesis by (simp add: decorate_all_snoc rules_of_decorate)
  next
    case False
    with snoc show ?thesis by (simp add: decorate_all_snoc rules_of_decorate)
  qed
qed

lemma course_table:
  "course_validators ''Course''
     = Some [(''title'', [''Required'']), (''price'', [''Positive''])]"
  by (simp add: course_validators_def PositiveNumber_def Required_def registeredValidators_def
      spread_def Course_prototype_def new_object_def)

lemma Course_prototype_name: "constructor_name Course_prototype = ''Course''"
  by (simp add: Course_prototype_def new_object_def)

text \<open>
  C1: registering a rule appends it to the rule list already held for the field. The
  code does not: a second registration for a field replaces the list by the singleton of
  the new rule. After \<open>@Required\<close> and then \<open>@PositiveNumber\<close> on \<open>price\<close> the entry of
  \<open>Course\<close> holds \<open>Positive\<close> alone, where the accumulating registration that the
  closing comments of the file describe would hold both.
\<close>

theorem registration_overwrites_rule_list:
  "PositiveNumber Course_prototype ''price''
     (Required Course_prototype ''price'' registeredValidators) ''Course''
     = Some [(''price'', [''Positive''])]"
  by (simp add: PositiveNumber_def Required_def registeredValidators_def spread_def
      Course_prototype_def new_object_def)

text \<open>
  C3: for distinct fields A and B of a type, registering a rule for A with either
  decorator leaves the rule list held for B as it was.
\<close>

theorem other_fields_kept:
  assumes "A \<noteq> B"
  shows "rules_of (Required target A regs) (constructor_name target) B
           = rules_of regs (constructor_name target) B
       \<and> rules_of (PositiveNumber target A regs) (constructor_name target) B
           = rules_of regs (constructor_name target) B"
  using assms by (simp add: rules_of_Required rules_of_PositiveNumber)

theorem other_fields_kept_witness:
  "''price'' \<noteq> ''title''
   \<and> rules_of (Required Course_prototype ''price'' course_validators) ''Course'' ''title''
       = Some [''Required'']
   \<and> rules_of (PositiveNumber Course_prototype ''price'' course_validators) ''Course'' ''title''
       = Some [''Required'']"
proof -
  have h: "''price'' \<noteq> ''title''" by simp
  have c: "constructor_name Course_prototype = ''Course''"
    by (simp add: Course_prototype_def new_object_def)
  have r: "rules_of course_validators ''Course'' ''title'' = Some [''Required'']"
    by (simp add: course_validators_def rules_of_PositiveNumber rules_of_Required c)
  show ?thesis
    using h other_fields_kept [OF h, of Course_prototype course_validators] r
    by (simp add: c)
qed

text \<open>
  C4: after a run of registrations of which two or more are for the same field of the
  same type, the table holds for that field exactly the one rule of the last of them.
\<close>

theorem last_registration_wins:
  assumes "2 \<le> length (filter (registers T f) ds)"
  shows "rules_of (decorate_all ds regs) T f =
           Some [rule_name (fst (last (filter (registers T f) ds)))]"
proof -
  from assms have "filter (registers T f) ds \<noteq> []" by auto
  then show ?thesis by (rule rules_of_decorate_all)
qed

theorem last_registration_wins_witness:
  "2 \<le> length (filter (registers ''Course'' ''price'')
         [(RequiredDecorator, Course_prototype, ''price''),
          (RequiredDecorator, Course_prototype, ''title''),
          (PositiveNumberDecorator, Course_prototype, ''price'')])
   \<and> rules_of (decorate_all
         [(RequiredDecorator, Course_prototype, ''price''),
          (RequiredDecorator, Course_prototype, ''title''),
          (PositiveNumberDecorator, Course_prototype, ''price'')] registeredValidators)
        ''Course'' ''price'' = Some [''Positive'']"
proof -
  have h: "2 \<le> length (filter (registers ''Course'' ''price'')
         [(RequiredDecorator, Course_prototype, ''price''),
          (RequiredDecorator, Course_prototype, ''title''),
          (PositiveNumberDecorator, Course_prototype, ''price'')])"
    by (simp add: registers_def Course_prototype_def new_object_def)
  show ?thesis
    using h last_registration_wins [OF h, of registeredValidators]
    by (simp add: registers_def Course_prototype_def new_object_def)
qed

section \<open>The price setter\<close>

lemma le_not_gt: "num_le_zero n \<Longrightarrow> \<not> num_gt_zero n"
  by (cases n) auto

text \<open>
  C9: the price setter stores a value greater than zero in the private price field and
  completes; on a value less than or equal to zero it throws the error
  "Invalid price - must be positive" and the object is as it was.
\<close>

theorem price_setter:
  "(num_gt_zero val \<longrightarrow> set_price val this = (Inr (), this\<lparr>price_field := val\<rparr>))
   \<and> (num_le_zero val \<longrightarrow>
        set_price val this = (Inl (Error ''Invalid price - must be positive''), this))"
  by (auto simp: set_price_def dest: le_not_gt)

theorem price_setter_witness:
  "num_gt_zero (Finite 20) \<and> num_le_zero (Finite (- 3)) \<and> num_le_zero (Finite 0)
   \<and> set_price (Finite 20) \<lparr>title = ''Book'', price_field = Finite 10\<rparr>
       = (Inr (), \<lparr>title = ''Book'', price_field = Finite 20\<rparr>)
   \<and> set_price (Finite (- 3)) \<lparr>title = ''Book'', price_field = Finite 10\<rparr>
       = (Inl (Error ''Invalid price - must be positive''), \<lparr>title = ''Book'', price_field = Finite 10\<rparr>)
   \<and> set_price (Finite 0) \<lparr>title = ''Book'', price_field = Finite 10\<rparr>
       = (Inl (Error ''Invalid price - must be positive''), \<lparr>title = ''Book'', price_field = Finite 10\<rparr>)"
  using price_setter [of "Finite 20" "\<lparr>title = ''Book'', price_field = Finite 10\<rparr>"]
        price_setter [of "Finite (- 3)" "\<lparr>title = ''Book'', price_field = Finite 10\<rparr>"]
        price_setter [of "Finite 0" "\<lparr>title = ''Book'', price_field = Finite 10\<rparr>"]
  by simp

section \<open>What validate computes\<close>

lemma check_validator_value:
  assumes "validator = ''Positive'' \<longrightarrow> \<not> is_symbol (props obj prop)"
  shows "check_validator str_num obj prop validator b
           = Inr (b \<and> rule_holds str_num (props obj prop) validator)"
  using assms
  by (cases "props obj prop") (auto simp: check_validator_def rule_holds_def)

lemma validators_loop_value:
  assumes "''Positive'' \<in> set validators \<longrightarrow> \<not> is_symbol (props obj prop)"
  shows "validators_loop str_num obj prop validators b
           = Inr (b \<and> list_all (rule_holds str_num (props obj prop)) validators)"
  using assms
proof (induction validators arbitrary: b)
  case Nil
  then show ?case by simp
next
  case (Cons v vs)
  from Cons.prems have "v = ''Positive'' \<longrightarrow> \<not> is_symbol (props obj prop)" by simp
  then have step: "check_validator str_num obj prop v b
                     = Inr (b \<and> rule_holds str_num (props obj prop) v)"
    by (rule check_validator_value)
  from Cons.prems have "''Positive'' \<in> set vs \<longrightarrow> \<not> is_symbol (props obj prop)" by simp
  then show ?case
    by (simp add: step Cons.IH)
qed

lemma props_loop_value:
  assumes "\<forall>k\<in>set ks. \<exists>vs. map_of cfg k = Some vs
             \<and> (''Positive'' \<in> set vs \<longrightarrow> \<not> is_symbol (props obj k))"
  shows "props_loop str_num obj cfg ks b = Inr (b \<and> list_all (prop_holds str_num obj cfg) ks)"
  using assms
proof (induction ks arbitrary: b)
  case Nil
  then show ?case by simp
next
  case (Cons k ks)
  from Cons.prems obtain vs where vs: "map_of cfg k = Some vs"
      and safe: "''Positive'' \<in> set vs \<longrightarrow> \<not> is_symbol (props obj k)"
    by auto
  have inner: "validators_loop str_num obj k vs b
                 = Inr (b \<and> list_all (rule_holds str_num (props obj k)) vs)"
    using safe by (rule validators_loop_value)
  from Cons.prems have "\<forall>k\<in>set ks. \<exists>vs. map_of cfg k = Some vs
             \<and> (''Positive'' \<in> set vs \<longrightarrow> \<not> is_symbol (props obj k))" by simp
  then show ?case
    by (simp add: vs inner Cons.IH prop_holds_def)
qed

lemma keys_have_rules:
  assumes "no_symbol_under_positive cfg obj" and "k \<in> set (map fst cfg)"
  shows "\<exists>vs. map_of cfg k = Some vs \<and> (''Positive'' \<in> set vs \<longrightarrow> \<not> is_symbol (props obj k))"
proof -
  from assms(2) obtain vs where vs: "map_of cfg k = Some vs"
    by (cases "map_of cfg k") (auto simp: map_of_eq_None_iff)
  then have "(k, vs) \<in> set cfg" by (rule map_of_SomeD)
  with assms(1) have "''Positive'' \<in> set vs \<longrightarrow> \<not> is_symbol (props obj k)"
    by (auto simp: no_symbol_under_positive_def list_all_iff)
  with vs show ?thesis by blast
qed

lemma validate_value:
  assumes "comparable regs obj"
  shows "validate str_num regs obj = Inr (passes str_num regs obj)"
proof (cases "regs (constructor_name obj)")
  case None
  then show ?thesis by (simp add: validate_def passes_def)
next
  case (Some cfg)
  with assms have "no_symbol_under_positive cfg obj" by (simp add: comparable_def)
  then have "\<forall>k\<in>set (map fst cfg). \<exists>vs. map_of cfg k = Some vs
             \<and> (''Positive'' \<in> set vs \<longrightarrow> \<not> is_symbol (props obj k))"
    using keys_have_rules by blast
  then have "props_loop str_num obj cfg (map fst cfg) True
               = Inr (True \<and> list_all (prop_holds str_num obj cfg) (map fst cfg))"
    by (rule props_loop_value)
  with Some show ?thesis by (simp add: validate_def passes_def)
qed

lemma failing_rule_fails:
  assumes "comparable regs obj"
    and "carries regs (constructor_name obj) f rule"
    and "\<not> rule_holds str_num (props obj f) rule"
  shows "validate str_num regs obj = Inr False"
proof -
  from assms(2) obtain cfg vs where cfg: "regs (constructor_name obj) = Some cfg"
      and vs: "map_of cfg f = Some vs" and r: "rule \<in> set vs"
    by (auto simp: carries_def rules_of_def split: option.splits)
  from vs have "f \<in> set (map fst cfg)"
    by (metis map_of_eq_None_iff option.distinct(1) set_map)
  moreover from vs r assms(3) have "\<not> prop_holds str_num obj cfg f"
    by (auto simp: prop_holds_def list_all_iff)
  ultimately have "\<not> passes str_num regs obj"
    by (auto simp: passes_def cfg list_all_iff)
  with validate_value [OF assms(1)] show ?thesis by simp
qed

lemma no_rules_loop:
  assumes "\<forall>k\<in>set ks. map_of cfg k = Some []"
  shows "props_loop str_num obj cfg ks b = Inr b"
  using assms by (induction ks arbitrary: b) auto

text \<open>
  The registry of the module on four courses: a course is valid exactly when its title
  is not empty and its price is greater than zero.
\<close>

lemma course_scenario:
  "validate text_to_number course_validators (Course ''Algebra'' (Finite 10)) = Inr True"
  "validate text_to_number course_validators (Course '''' (Finite 10)) = Inr False"
  "validate text_to_number course_validators (Course ''Algebra'' (Finite (- 1))) = Inr False"
  "validate text_to_number course_validators (Course '''' (Finite (- 1))) = Inr False"
  by (simp_all add: validate_def course_table Course_def new_object_def check_validator_def)

section \<open>Properties of validate\<close>

text \<open>
  C7: for a candidate instance whose type has no rules in the table, validate returns
  true whatever the instance holds.
\<close>

theorem unconfigured_type_valid:
  assumes "no_rules regs (constructor_name obj)"
  shows "validate str_num regs obj = Inr True"
proof (cases "regs (constructor_name obj)")
  case None
  then show ?thesis by (simp add: validate_def)
next
  case (Some cfg)
  with assms have empty: "\<forall>(f, vs)\<in>set cfg. vs = []"
    by (simp add: no_rules_def list_all_iff)
  have "\<forall>k\<in>set (map fst cfg). map_of cfg k = Some []"
  proof
    fix k assume "k \<in> set (map fst cfg)"
    then obtain vs where vs: "map_of cfg k = Some vs"
      by (cases "map_of cfg k") (auto simp: map_of_eq_None_iff)
    then have "(k, vs) \<in> set cfg" by (rule map_of_SomeD)
    with empty have "vs = []" by auto
    with vs show "map_of cfg k = Some []" by simp
  qed
  then have "props_loop str_num obj cfg (map fst cfg) True = Inr True"
    by (rule no_rules_loop)
  with Some show ?thesis by (simp add: validate_def)
qed

lemma course_validators_other: "T \<noteq> ''Course'' \<Longrightarrow> course_validators T = None"
  by (simp add: course_validators_def PositiveNumber_def Required_def registeredValidators_def
      Course_prototype_name)

theorem unconfigured_type_valid_witness:
  "no_rules course_validators (constructor_name (new_object ''Printer'' [(''message'', JSymbol ''m'')]))
   \<and> validate text_to_number course_validators (new_object ''Printer'' [(''message'', JSymbol ''m'')])
       = Inr True"
proof -
  have h: "no_rules course_validators
             (constructor_name (new_object ''Printer'' [(''message'', JSymbol ''m'')]))"
    by (simp add: no_rules_def new_object_def course_validators_other)
  show ?thesis
    using h unconfigured_type_valid [OF h, of text_to_number] by simp
qed

lemma Course_comparable: "comparable course_validators (Course t p)"
  by (simp add: comparable_def course_table no_symbol_under_positive_def Course_def new_object_def)

lemma instance_of_passed: "instance_of (constructor_name obj) (passed obj) = obj"
  by (simp add: instance_of_def passed_def)

text \<open>
  C8 (as amended): on a candidate instance whose \<open>constructor\<close> property reads a class,
  and in which no field that carries the Positive rule holds a Symbol, validate does not
  throw: it returns a boolean, true when every registered rule holds on its field and
  false when one of them fails.
\<close>

theorem validate_returns:
  assumes "constructor_read c = Some T"
    and "comparable regs (instance_of T c)"
  shows "validate_any str_num regs c = Inr (passes str_num regs (instance_of T c))"
  using assms(1) validate_value [OF assms(2)]
  by (simp add: validate_any_def)

theorem validate_returns_witness:
  "constructor_read (passed (Course ''Algebra'' (Finite (- 1)))) = Some ''Course''
   \<and> comparable course_validators
        (instance_of ''Course'' (passed (Course ''Algebra'' (Finite (- 1)))))
   \<and> validate_any text_to_number course_validators (passed (Course ''Algebra'' (Finite (- 1))))
       = Inr False
   \<and> constructor_read (passed (Course ''Algebra'' (Finite 10))) = Some ''Course''
   \<and> comparable course_validators
        (instance_of ''Course'' (passed (Course ''Algebra'' (Finite 10))))
   \<and> validate_any text_to_number course_validators (passed (Course ''Algebra'' (Finite 10)))
       = Inr True"
proof -
  have n: "constructor_name (Course t p) = ''Course''" for t p
    by (simp add: Course_def new_object_def)
  have h1: "constructor_read (passed (Course t p)) = Some ''Course''" for t p
    by (simp add: passed_def n)
  have i: "instance_of ''Course'' (passed (Course t p)) = Course t p" for t p
    using instance_of_passed [of "Course t p"] by (simp add: n)
  have h2: "comparable course_validators (instance_of ''Course'' (passed (Course t p)))" for t p
    by (simp add: i Course_comparable)
  have p1: "passes text_to_number course_validators (Course ''Algebra'' (Finite (- 1))) = False"
    by (simp add: passes_def course_table prop_holds_def rule_holds_def Course_def new_object_def)
  have p2: "passes text_to_number course_validators (Course ''Algebra'' (Finite 10)) = True"
    by (simp add: passes_def course_table prop_holds_def rule_holds_def Course_def new_object_def)
  show ?thesis
    using h1 h2 p1 p2
      validate_returns [OF h1 [of "''Algebra''" "Finite (- 1)"] h2, of text_to_number]
      validate_returns [OF h1 [of "''Algebra''" "Finite 10"] h2, of text_to_number]
    by (simp add: i)
qed

text \<open>
  A \<open>Course\<close> whose \<open>constructor\<close> property was set to null: reading its name raises.
  A \<open>Course\<close> whose price is a Symbol: the title passes Required, and the comparison of
  the price with zero raises.
\<close>

theorem validate_throws:
  "validate_any text_to_number course_validators
     (without_constructor (Course ''Algebra'' (Finite 10)))
     = Inl (TypeError ''Cannot read properties of null or undefined'')
   \<and> validate_any text_to_number course_validators
       (passed (new_object ''Course'' [(''title'', JStr ''Algebra''), (''price'', JSymbol ''p'')]))
     = Inl (TypeError ''Cannot convert a Symbol value to a number'')"
  by (simp add: validate_any_def without_constructor_def passed_def instance_of_def
      validate_def course_table new_object_def check_validator_def)

text \<open>
  C2: with both rules registered on a field, in either order, validate returns false
  whenever one of the two predicates fails. The code keeps only the rule registered
  last, so with \<open>@PositiveNumber\<close> applied before \<open>@Required\<close> on \<open>price\<close> the value -5
  is checked against Required alone and validate returns true.
\<close>

theorem negative_price_passes_after_overwrite:
  "validate text_to_number
     (Required Course_prototype ''price''
        (PositiveNumber Course_prototype ''price'' registeredValidators))
     (Course ''Algebra'' (Finite (- 5)))
     = Inr True"
  by (simp add: validate_def PositiveNumber_def Required_def registeredValidators_def spread_def
      Course_prototype_def Course_def new_object_def check_validator_def)

lemma Required_pred: "rule_holds str_num v ''Required'' = to_boolean v"
  by (simp add: rule_holds_def)

lemma to_boolean_listed: "to_boolean v = (\<not> (spec_listed_absent v \<or> v = JNum NaN))"
  by (cases v rule: spec_listed_absent.cases) auto

text \<open>
  C5 (as amended): on a candidate instance in which no field that carries the Positive
  rule holds a Symbol, validate returns false when a field that carries the Required rule
  holds the empty string, zero, NaN, null, undefined or false; and the Required predicate
  is true for every other value.
\<close>

theorem required_rule:
  "(comparable regs obj \<and> carries regs (constructor_name obj) f ''Required''
      \<and> (spec_listed_absent (props obj f) \<or> props obj f = JNum NaN)
    \<longrightarrow> validate str_num regs obj = Inr False)
   \<and> check_validator str_num obj f ''Required'' True
       = Inr (\<not> (spec_listed_absent (props obj f) \<or> props obj f = JNum NaN))"
proof (intro conjI impI)
  assume h: "comparable regs obj \<and> carries regs (constructor_name obj) f ''Required''
      \<and> (spec_listed_absent (props obj f) \<or> props obj f = JNum NaN)"
  then have "\<not> rule_holds str_num (props obj f) ''Required''"
    by (simp add: Required_pred to_boolean_listed)
  with h show "validate str_num regs obj = Inr False"
    by (blast intro: failing_rule_fails)
next
  show "check_validator str_num obj f ''Required'' True
       = Inr (\<not> (spec_listed_absent (props obj f) \<or> props obj f = JNum NaN))"
    by (simp add: check_validator_def to_boolean_listed)
qed

lemma Course_carries_title: "carries course_validators ''Course'' ''title'' ''Required''"
  by (simp add: carries_def rules_of_def course_table)

lemma Course_carries_price: "carries course_validators ''Course'' ''price'' ''Positive''"
  by (simp add: carries_def rules_of_def course_table)

theorem required_rule_witness:
  "comparable course_validators (Course '''' (Finite 10))
   \<and> carries course_validators (constructor_name (Course '''' (Finite 10))) ''title'' ''Required''
   \<and> spec_listed_absent (props (Course '''' (Finite 10)) ''title'')
   \<and> validate text_to_number course_validators (Course '''' (Finite 10)) = Inr False
   \<and> check_validator text_to_number (Course '''' (Finite 10)) ''title'' ''Required'' True = Inr False
   \<and> check_validator text_to_number (Course ''Algebra'' (Finite 10)) ''title'' ''Required'' True = Inr True"
proof -
  have h1: "comparable course_validators (Course '''' (Finite 10))"
    by (rule Course_comparable)
  have h2: "carries course_validators (constructor_name (Course '''' (Finite 10))) ''title'' ''Required''"
    by (simp add: Course_def new_object_def Course_carries_title)
  have h3: "spec_listed_absent (props (Course '''' (Finite 10)) ''title'')"
    by (simp add: Course_def new_object_def)
  have h4: "\<not> spec_listed_absent (props (Course ''Algebra'' (Finite 10)) ''title'')"
       "props (Course ''Algebra'' (Finite 10)) ''title'' \<noteq> JNum NaN"
    by (simp_all add: Course_def new_object_def)
  show ?thesis
    using h1 h2 h3 h4
      required_rule [of course_validators "Course '''' (Finite 10)" "''title''" text_to_number]
      required_rule [of course_validators "Course ''Algebra'' (Finite 10)" "''title''" text_to_number]
    by simp
qed

text \<open>
  NaN is none of the listed values and fails Required; and a Symbol under an earlier
  Positive rule raises before the empty title is reached.
\<close>

theorem required_rule_counterexample:
  "\<not> spec_listed_absent (JNum NaN)
   \<and> carries (Required Course_prototype ''price'' registeredValidators) ''Course'' ''price'' ''Required''
   \<and> validate text_to_number (Required Course_prototype ''price'' registeredValidators)
       (Course ''Algebra'' NaN) = Inr False
   \<and> carries (Required Course_prototype ''title''
               (PositiveNumber Course_prototype ''price'' registeredValidators))
        ''Course'' ''title'' ''Required''
   \<and> validate text_to_number
       (Required Course_prototype ''title''
          (PositiveNumber Course_prototype ''price'' registeredValidators))
       (new_object ''Course'' [(''title'', JStr ''''), (''price'', JSymbol ''p'')])
       = Inl (TypeError ''Cannot convert a Symbol value to a number'')"
  by (simp add: carries_def rules_of_def validate_def PositiveNumber_def Required_def
      registeredValidators_def spread_def Course_prototype_def Course_def new_object_def
      check_validator_def)

lemma greater_than_zero_numeric:
  "to_numeric str_num v = Inr x \<Longrightarrow> greater_than_zero str_num v = Inr (numeric_gt_zero x)"
  by (cases v) (auto split: if_splits)

lemma numeric_le_not_gt: "numeric_le_zero x \<Longrightarrow> \<not> numeric_gt_zero x"
  by (cases x) (auto dest: le_not_gt)

text \<open>
  C6 (as amended): on a candidate instance in which no field that carries the Positive
  rule holds a Symbol, validate returns false when the value of a field that carries the
  Positive rule, interpreted numerically, is less than or equal to zero; and the
  Positive predicate is true exactly when the value, interpreted numerically, is greater
  than zero.
\<close>

theorem positive_rule:
  "(comparable regs obj \<and> carries regs (constructor_name obj) f ''Positive''
      \<and> to_numeric str_num (props obj f) = Inr x \<and> numeric_le_zero x
    \<longrightarrow> validate str_num regs obj = Inr False)
   \<and> (to_numeric str_num (props obj f) = Inr x \<longrightarrow>
        check_validator str_num obj f ''Positive'' True = Inr (numeric_gt_zero x))
   \<and> (props obj f = JNum n \<longrightarrow>
        check_validator str_num obj f ''Positive'' True = Inr (num_gt_zero n))
   \<and> (props obj f = JNum (Finite r) \<longrightarrow>
        check_validator str_num obj f ''Positive'' True = Inr (0 < r))
   \<and> (props obj f = JBigInt i \<longrightarrow>
        check_validator str_num obj f ''Positive'' True = Inr (0 < i))"
proof (intro conjI impI)
  assume h: "comparable regs obj \<and> carries regs (constructor_name obj) f ''Positive''
      \<and> to_numeric str_num (props obj f) = Inr x \<and> numeric_le_zero x"
  then have "greater_than_zero str_num (props obj f) = Inr (numeric_gt_zero x)"
    by (simp add: greater_than_zero_numeric)
  with h have "\<not> rule_holds str_num (props obj f) ''Positive''"
    by (auto simp: rule_holds_def dest: numeric_le_not_gt)
  with h show "validate str_num regs obj = Inr False"
    by (blast intro: failing_rule_fails)
next
  assume "to_numeric str_num (props obj f) = Inr x"
  then show "check_validator str_num obj f ''Positive'' True = Inr (numeric_gt_zero x)"
    by (simp add: check_validator_def greater_than_zero_numeric)
qed (simp_all add: check_validator_def)

lemma course_price_comparable:
  "\<not> is_symbol v \<Longrightarrow>
   comparable course_validators (new_object ''Course'' [(''title'', JStr t), (''price'', v)])"
  by (simp add: comparable_def course_table no_symbol_under_positive_def new_object_def)

theorem positive_rule_witness:
  "comparable course_validators (Course ''Algebra'' (Finite (- 1)))
   \<and> carries course_validators (constructor_name (Course ''Algebra'' (Finite (- 1)))) ''price'' ''Positive''
   \<and> to_numeric text_to_number (props (Course ''Algebra'' (Finite (- 1))) ''price'')
       = Inr (Number (Finite (- 1)))
   \<and> numeric_le_zero (Number (Finite (- 1)))
   \<and> validate text_to_number course_validators (Course ''Algebra'' (Finite (- 1))) = Inr False
   \<and> comparable course_validators
       (new_object ''Course'' [(''title'', JStr ''Algebra''), (''price'', JBigInt (- 3))])
   \<and> carries course_validators
       (constructor_name (new_object ''Course'' [(''title'', JStr ''Algebra''), (''price'', JBigInt (- 3))]))
       ''price'' ''Positive''
   \<and> to_numeric text_to_number
       (props (new_object ''Course'' [(''title'', JStr ''Algebra''), (''price'', JBigInt (- 3))]) ''price'')
       = Inr (BigInt (- 3))
   \<and> numeric_le_zero (BigInt (- 3))
   \<and> validate text_to_number course_validators
       (new_object ''Course'' [(''title'', JStr ''Algebra''), (''price'', JBigInt (- 3))]) = Inr False
   \<and> comparable course_validators
       (new_object ''Course'' [(''title'', JStr ''Algebra''), (''price'', JNull)])
   \<and> to_numeric text_to_number
       (props (new_object ''Course'' [(''title'', JStr ''Algebra''), (''price'', JNull)]) ''price'')
       = Inr (Number (Finite 0))
   \<and> validate text_to_number course_validators
       (new_object ''Course'' [(''title'', JStr ''Algebra''), (''price'', JNull)]) = Inr False
   \<and> check_validator text_to_number (Course ''Algebra'' (Finite (- 1))) ''price'' ''Positive'' True
       = Inr False
   \<and> check_validator text_to_number (Course ''Algebra'' (Finite 10)) ''price'' ''Positive'' True
       = Inr True
   \<and> check_validator text_to_number
       (new_object ''Course'' [(''title'', JStr ''Algebra''), (''price'', JBool True)])
       ''price'' ''Positive'' True = Inr True"
proof -
  have c: "carries course_validators (constructor_name (new_object ''Course'' xs)) ''price'' ''Positive''"
    for xs
    by (simp add: new_object_def Course_carries_price)
  have h1: "comparable course_validators (Course ''Algebra'' (Finite (- 1)))"
    by (rule Course_comparable)
  have h2: "comparable course_validators
       (new_object ''Course'' [(''title'', JStr ''Algebra''), (''price'', JBigInt (- 3))])"
       "comparable course_validators
       (new_object ''Course'' [(''title'', JStr ''Algebra''), (''price'', JNull)])"
    by (simp_all add: course_price_comparable)
  have n: "to_numeric text_to_number (props (Course ''Algebra'' (Finite (- 1))) ''price'')
             = Inr (Number (Finite (- 1)))"
          "to_numeric text_to_number (props (Course ''Algebra'' (Finite 10)) ''price'')
             = Inr (Number (Finite 10))"
          "to_numeric text_to_number
             (props (new_object ''Course'' [(''title'', JStr ''Algebra''), (''price'', JBigInt (- 3))]) ''price'')
             = Inr (BigInt (- 3))"
          "to_numeric text_to_number
             (props (new_object ''Course'' [(''title'', JStr ''Algebra''), (''price'', JNull)]) ''price'')
             = Inr (Number (Finite 0))"
          "to_numeric text_to_number
             (props (new_object ''Course'' [(''title'', JStr ''Algebra''), (''price'', JBool True)]) ''price'')
             = Inr (Number (Finite 1))"
    by (simp_all add: Course_def new_object_def)
  show ?thesis
    using h1 h2 n c [of "[(''title'', JStr ''Algebra''), (''price'', JBigInt (- 3))]"]
      c [of "[(''title'', JStr ''Algebra''), (''price'', JNull)]"]
      c [of "[(''title'', JStr ''Algebra''), (''price'', JNum (Finite (- 1)))]"]
      positive_rule [of course_validators "Course ''Algebra'' (Finite (- 1))" "''price''"
                        text_to_number "Number (Finite (- 1))"]
      positive_rule [of course_validators
                        "new_object ''Course'' [(''title'', JStr ''Algebra''), (''price'', JBigInt (- 3))]"
                        "''price''" text_to_number "BigInt (- 3)"]
      positive_rule [of course_validators
                        "new_object ''Course'' [(''title'', JStr ''Algebra''), (''price'', JNull)]"
                        "''price''" text_to_number "Number (Finite 0)"]
      positive_rule [of _ "Course ''Algebra'' (Finite 10)" "''price''"
                        text_to_number "Number (Finite 10)"]
      positive_rule [of _ "new_object ''Course'' [(''title'', JStr ''Algebra''), (''price'', JBool True)]"
                        "''price''" text_to_number "Number (Finite 1)"]
    by (simp add: Course_def)
qed

text \<open>
  Two fields under the Positive rule: the Symbol in the first raises before the
  negative number in the second is compared.
\<close>

theorem positive_rule_counterexample:
  "carries (PositiveNumber (new_object ''Item'' []) ''price''
             (PositiveNumber (new_object ''Item'' []) ''tag'' registeredValidators))
      ''Item'' ''price'' ''Positive''
   \<and> num_le_zero (Finite (- 1))
   \<and> validate text_to_number
       (PositiveNumber (new_object ''Item'' []) ''price''
          (PositiveNumber (new_object ''Item'' []) ''tag'' registeredValidators))
       (new_object ''Item'' [(''tag'', JSymbol ''t''), (''price'', JNum (Finite (- 1)))])
       = Inl (TypeError ''Cannot convert a Symbol value to a number'')"
  by (simp add: carries_def rules_of_def validate_def PositiveNumber_def
      registeredValidators_def spread_def new_object_def check_validator_def)

text \<open>
  C10 (as amended): on a candidate instance in which no field that carries the Positive
  rule holds a Symbol, validate returns false when a field that carries the Positive rule
  holds NaN.
\<close>

theorem nan_fails_positive:
  assumes "comparable regs obj"
    and "carries regs (constructor_name obj) f ''Positive''"
    and "props obj f = JNum NaN"
  shows "validate str_num regs obj = Inr False"
proof -
  from assms(3) have "\<not> rule_holds str_num (props obj f) ''Positive''"
    by (simp add: rule_holds_def)
  with assms(1,2) show ?thesis by (rule failing_rule_fails)
qed

theorem nan_fails_positive_witness:
  "comparable course_validators (Course ''Algebra'' NaN)
   \<and> carries course_validators (constructor_name (Course ''Algebra'' NaN)) ''price'' ''Positive''
   \<and> props (Course ''Algebra'' NaN) ''price'' = JNum NaN
   \<and> validate text_to_number course_validators (Course ''Algebra'' NaN) = Inr False"
proof -
  have h1: "comparable course_validators (Course ''Algebra'' NaN)"
    by (rule Course_comparable)
  have h2: "carries course_validators (constructor_name (Course ''Algebra'' NaN)) ''price'' ''Positive''"
    by (simp add: Course_def new_object_def Course_carries_price)
  have h3: "props (Course ''Algebra'' NaN) ''price'' = JNum NaN"
    by (simp add: Course_def new_object_def)
  show ?thesis
    using h1 h2 h3 nan_fails_positive [OF h1 h2 h3, of text_to_number] by simp
qed

theorem nan_fails_positive_counterexample:
  "carries (PositiveNumber (new_object ''Ticket'' []) ''price''
             (PositiveNumber (new_object ''Ticket'' []) ''code'' registeredValidators))
      ''Ticket'' ''price'' ''Positive''
   \<and> validate text_to_number
       (PositiveNumber (new_object ''Ticket'' []) ''price''
          (PositiveNumber (new_object ''Ticket'' []) ''code'' registeredValidators))
       (new_object ''Ticket'' [(''code'', JSymbol ''c''), (''price'', JNum NaN)])
       = Inl (TypeError ''Cannot convert a Symbol value to a number'')"
  by (simp add: carries_def rules_of_def validate_def PositiveNumber_def
      registeredValidators_def spread_def new_object_def check_validator_def)

end
